theory Spec2Isabelle
  imports Main "HOL-Library.Sublist"
begin

section \<open>The governance agent of the Realms example (src/realms/index.ts)\<close>

text \<open>
  The class \<open>GovernanceAgent\<close> routes a free-text instruction to one of three
  handlers by keyword and returns a response envelope. The embedding follows the
  class method by method.

  Strings. A JavaScript string is a sequence of UTF-16 code units. The model covers
  the code units \<open>0x00 .. 0xFF\<close> (Latin-1), one \<open>char\<close> each, and on that range
  \<open>toLowerCase\<close>, \<open>trim\<close>, \<open>includes\<close> and \<open>split\<close> are modelled as ECMAScript
  defines them. Instructions with code units above \<open>0xFF\<close> are outside the model.

  Effects. The methods are \<open>async\<close>; a promise that resolves is the value \<open>Inr\<close>, one
  that rejects is \<open>Inl\<close>. Two effects are threaded through an explicit state: reading
  the clock (\<open>new Date()\<close>, \<open>Date.now()\<close>) and invoking \<open>executeTransaction\<close>, whose
  invocations are counted so that statements about how often the signer is called
  can be made.

  Dates. \<open>toISOString\<close> is not rendered: a timestamp field holds the instant, in
  milliseconds since the epoch, that the string would denote. \<open>new Date()\<close> holds
  the current time, which is a time value, and its rendering does not raise.
  \<open>new Date(v)\<close> is invalid when \<open>v\<close> lies outside the range of time values,
  \<open>-8.64e15 .. 8.64e15\<close>, and \<open>toISOString\<close> on an invalid date raises a
  RangeError; \<open>createProposal\<close> does this with the current time plus three days.
\<close>

subsection \<open>String primitives\<close>

definition dquote :: char where
  "dquote = CHR 0x22"

definition toLowerChar :: "char \<Rightarrow> char" where
  "toLowerChar c =
     (let n = (of_char c :: nat)
      in if (65 \<le> n \<and> n \<le> 90) \<or> (192 \<le> n \<and> n \<le> 214) \<or> (216 \<le> n \<and> n \<le> 222)
         then char_of (n + 32) else c)"

definition toLowerCase :: "string \<Rightarrow> string" where
  "toLowerCase s = map toLowerChar s"

text \<open>\<open>s.includes(t)\<close>: \<open>t\<close> occurs in \<open>s\<close> as a contiguous substring.\<close>

fun includes_str :: "string \<Rightarrow> string \<Rightarrow> bool" where
  "includes_str [] t = (t = [])"
| "includes_str (c # cs) t = (prefix t (c # cs) \<or> includes_str cs t)"

text \<open>
  \<open>s.split(sep)\<close> without a limit. With a non-empty separator the string is scanned
  from the left; at a position where \<open>sep\<close> matches, the piece collected so far is
  emitted and the scan continues behind the match; the last piece is always emitted.
  \<open>cur\<close> is the current piece, reversed. With the empty separator the result is the
  list of the single code units.
\<close>

function split_scan :: "string \<Rightarrow> string \<Rightarrow> string \<Rightarrow> string list" where
  "split_scan sep cur [] = [rev cur]"
| "split_scan sep cur (c # cs) =
     (if sep = [] then split_scan sep (c # cur) cs
      else if prefix sep (c # cs)
        then rev cur # split_scan sep [] (drop (length sep) (c # cs))
        else split_scan sep (c # cur) cs)"
  by pat_completeness auto
termination
  by (relation "measure (\<lambda>(sep, cur, s). length s)") auto

definition split_str :: "string \<Rightarrow> string \<Rightarrow> string list" where
  "split_str s sep = (if sep = [] then map (\<lambda>c. [c]) s else split_scan sep [] s)"

text \<open>
  \<open>s.trim()\<close> removes white space and line terminators from both ends; on the
  Latin-1 range these are TAB, LF, VT, FF, CR, SP and NBSP.
\<close>

definition isWhiteSpace :: "char \<Rightarrow> bool" where
  "isWhiteSpace c = ((of_char c :: nat) \<in> set [9, 10, 11, 12, 13, 32, 160])"

definition trim :: "string \<Rightarrow> string" where
  "trim s = rev (dropWhile isWhiteSpace (rev (dropWhile isWhiteSpace s)))"

text \<open>\<open>xs[i]\<close> on an array: \<open>undefined\<close> (here \<open>None\<close>) out of range.\<close>

definition index :: "'a list \<Rightarrow> nat \<Rightarrow> 'a option" where
  "index xs i = (if i < length xs then Some (xs ! i) else None)"

text \<open>
  \<open>x || d\<close> where \<open>x\<close> is a string or \<open>undefined\<close>: both \<open>undefined\<close> and the empty
  string are falsy.
\<close>

definition or_else :: "string option \<Rightarrow> string \<Rightarrow> string" where
  "or_else x d = (case x of None \<Rightarrow> d | Some t \<Rightarrow> if t = [] then d else t)"

subsection \<open>Data model\<close>

datatype js_error = TypeError | RangeError

record token =
  mint :: string
  symbol :: string
  amount :: string

text \<open>The \<open>data\<close> objects the three handlers build; \<open>type\<close> is the field \<open>type\<close>.\<close>

datatype payload =
    ProposalResult (type: string) (title: string) (createdAt: int)
      (proposalAddress: string) (votingEndsAt: int)
  | VoteResult (type: string) (proposalId: string) (vote: string)
      (votingPower: string) (timestamp: int)
  | TreasurySnapshot (type: string) (balance: string) (tokens: "token list")
      (governanceAddress: string) (lastActivity: int)

record ResponseError =
  code :: int
  message :: string

text \<open>
  Modelled from the spec: the type \<open>AgentResponse\<close> is imported from
  \<open>mcp-agents/src/agent-template\<close>, which is not among the sources. The spec gives its
  shape (section 3, ResponseEnvelope): \<open>success\<close>, \<open>message\<close>, optional \<open>data\<close>,
  optional \<open>error\<close> with \<open>code\<close> and \<open>message\<close>, optional \<open>transactionId\<close>. A field
  that an object literal of the source leaves out is \<open>None\<close>.
\<close>

record AgentResponse =
  success :: bool
  message :: string
  data :: "payload option"
  error :: "ResponseError option"
  transactionId :: "string option"

text \<open>
  The fields the class declares. Those it inherits from the base class \<open>Agent\<close>
  (\<open>agentId\<close>, the connection) are read by \<open>getState\<close> only and are left out.
\<close>

record GovernanceAgent =
  daoName :: string
  realmAddress :: string

text \<open>
  The state the effects act on: \<open>clock k\<close> is what the \<open>k\<close>-th reading of the clock
  returns, \<open>reads\<close> counts the readings so far, \<open>signerCalls\<close> counts the invocations
  of \<open>executeTransaction\<close> so far.
\<close>

record env =
  clock :: "nat \<Rightarrow> int"
  reads :: nat
  signerCalls :: nat

definition dateNow :: "env \<Rightarrow> int \<times> env" where
  "dateNow w = (clock w (reads w), w\<lparr>reads := reads w + 1\<rparr>)"

text \<open>
  \<open>new Date(v).toISOString()\<close> for a number \<open>v\<close>: the date is valid when \<open>v\<close> is
  a time value, at most \<open>8.64e15\<close> milliseconds from the epoch on either side.
\<close>

definition validTime :: "int \<Rightarrow> bool" where
  "validTime v = (- 8640000000000000 \<le> v \<and> v \<le> 8640000000000000)"

definition toISOString :: "int \<Rightarrow> js_error + int" where
  "toISOString v = (if validTime v then Inr v else Inl RangeError)"

subsection \<open>The methods of \<open>GovernanceAgent\<close>\<close>

definition getCapabilities :: "GovernanceAgent \<Rightarrow> string list" where
  "getCapabilities this =
     [''Proposal Creation'', ''Vote Casting'', ''DAO Treasury Management'',
      ''Governance Analytics'', ''Member Management'']"

definition executeTransaction :: "GovernanceAgent \<Rightarrow> 'tx \<Rightarrow> env \<Rightarrow> string \<times> env" where
  "executeTransaction this transaction w =
     (''simulated-transaction-signature'', w\<lparr>signerCalls := signerCalls w + 1\<rparr>)"

text \<open>
  \<open>createProposal\<close> first evaluates the title expression, then builds the envelope:
  \<open>createdAt\<close> reads the clock with \<open>new Date()\<close>, \<open>votingEndsAt\<close> reads it
  again with \<open>Date.now()\<close>, adds three days and renders the result, which raises
  when the sum is not a time value.

  The title expression of \<open>createProposal\<close>. \<open>instruction.split('titled')[1]\<close> is
  \<open>undefined\<close> when the split has one piece only, and \<open>.trim()\<close> on \<open>undefined\<close>
  raises a TypeError.
\<close>

definition proposalTitle :: "string \<Rightarrow> js_error + string" where
  "proposalTitle instruction =
     (if includes_str instruction ''titled''
      then (case index (split_str instruction ''titled'') 1 of
              None \<Rightarrow> Inl TypeError
            | Some piece \<Rightarrow>
                Inr (or_else (index (split_str (trim piece) [dquote]) 1) ''Untitled Proposal''))
      else Inr ''Untitled Proposal'')"

definition createProposal ::
  "GovernanceAgent \<Rightarrow> string \<Rightarrow> env \<Rightarrow> (js_error + AgentResponse) \<times> env" where
  "createProposal this instruction w =
     (case proposalTitle instruction of
        Inl e \<Rightarrow> (Inl e, w)
      | Inr title' \<Rightarrow>
          (let (t1, w1) = dateNow w;
               (t2, w2) = dateNow w1
           in (case toISOString (t2 + 3 * 24 * 60 * 60 * 1000) of
                 Inl e \<Rightarrow> (Inl e, w2)
               | Inr ends \<Rightarrow>
                   (Inr \<lparr>success = True,
                         message = ''Created new governance proposal: ''
                           @ [dquote] @ title' @ [dquote],
                         data = Some (ProposalResult ''proposal'' title' t1
                                  ''Gx7dJvn9PD9G6uUPsVQCjrCgPy9ogHZ7GzZm5HVF37EL'' ends),
                         error = None,
                         transactionId = None\<rparr>, w2))))"

definition castVote ::
  "GovernanceAgent \<Rightarrow> string \<Rightarrow> env \<Rightarrow> (js_error + AgentResponse) \<times> env" where
  "castVote this instruction w =
     (let proposalId' = ''Gx7dJvn9PD9G6uUPsVQCjrCgPy9ogHZ7GzZm5HVF37EL'';
          voteFor = (\<not> includes_str (toLowerCase instruction) ''against'');
          (t, w1) = dateNow w
      in (Inr \<lparr>success = True,
               message = ''Vote cast '' @ (if voteFor then ''for'' else ''against'') @ '' proposal'',
               data = Some (VoteResult ''vote'' proposalId'
                        (if voteFor then ''for'' else ''against'') ''1000'' t),
               error = None,
               transactionId = None\<rparr>, w1))"

definition treasuryAction ::
  "GovernanceAgent \<Rightarrow> string \<Rightarrow> env \<Rightarrow> (js_error + AgentResponse) \<times> env" where
  "treasuryAction this instruction w =
     (let (t, w1) = dateNow w
      in (Inr \<lparr>success = True,
               message = ''Treasury information retrieved'',
               data = Some (TreasurySnapshot ''treasury'' ''15000 SOL''
                        [\<lparr>mint = ''EPjFWdd5AufqSSqeM2qN1xzybapC8G4wEGGkZwyTDt1v'',
                          symbol = ''USDC'', amount = ''25000''\<rparr>,
                         \<lparr>mint = ''mSoLzYCxHdYgdzU16g5QSh3i5K3z3KZK7ytfqcJm7So'',
                          symbol = ''mSOL'', amount = ''150''\<rparr>]
                        ''G5trKGedmTdqpn6wqfX3KdPnBXriazkWuSEBrUEFQ1qJ'' t),
               error = None,
               transactionId = None\<rparr>, w1))"

definition processInstruction ::
  "GovernanceAgent \<Rightarrow> string \<Rightarrow> env \<Rightarrow> (js_error + AgentResponse) \<times> env" where
  "processInstruction this instruction w =
     (if includes_str (toLowerCase instruction) ''create proposal''
        then createProposal this instruction w
      else if includes_str (toLowerCase instruction) ''vote''
              \<or> includes_str (toLowerCase instruction) ''cast''
        then castVote this instruction w
      else if includes_str (toLowerCase instruction) ''treasury''
        then treasuryAction this instruction w
      else (Inr \<lparr>success = False,
                 message = ''Unsupported governance instruction'',
                 data = None,
                 error = Some \<lparr>code = 400, message = ''Could not parse governance instruction''\<rparr>,
                 transactionId = None\<rparr>, w))"

subsection \<open>Observations and a sample configuration\<close>

text \<open>
  The handler that produced an outcome is visible in the \<open>type\<close> field of the
  payload; the unsupported branch (and a rejected promise) has no payload.
\<close>

definition payloadType :: "(js_error + AgentResponse) \<times> env \<Rightarrow> string option" where
  "payloadType outcome =
     (case fst outcome of Inl e \<Rightarrow> None | Inr r \<Rightarrow> map_option type (data r))"

text \<open>
  \<open>votingEndValid w\<close>: from the state \<open>w\<close> on, the second reading of the clock
  (the one \<open>createProposal\<close> takes with \<open>Date.now()\<close>) plus three days is a time
  value. It holds of every clock that is more than three days before the end of the
  range of \<open>Date\<close>.
\<close>

definition votingEndValid :: "env \<Rightarrow> bool" where
  "votingEndValid w = validTime (clock w (reads w + 1) + 3 * 24 * 60 * 60 * 1000)"

text \<open>
  The agent that \<open>main\<close> constructs; a state in which the clock has not been
  read and the signer has not been called; and a state whose clock stands at the
  last instant \<open>Date\<close> can hold.
\<close>

definition demoAgent :: GovernanceAgent where
  "demoAgent = \<lparr>daoName = ''MCP Community'',
                 realmAddress = ''G5trKGedmTdqpn6wqfX3KdPnBXriazkWuSEBrUEFQ1qJ''\<rparr>"

definition env0 :: env where
  "env0 = \<lparr>clock = (\<lambda>k. 1700000000000 + int k), reads = 0, signerCalls = 0\<rparr>"

definition envLast :: env where
  "envLast = \<lparr>clock = (\<lambda>k. 8640000000000000), reads = 0, signerCalls = 0\<rparr>"

section \<open>Properties of the string primitives\<close>

lemma includes_str_sublist: "includes_str s t = sublist t s"
  by (induction s) (simp_all add: sublist_Cons_right)

lemma includes_str_Nil [simp]: "includes_str s []"
  by (cases s) simp_all

lemma split_scan_not_Nil: "split_scan sep cur s \<noteq> []"
  by (induction sep cur s rule: split_scan.induct) simp_all

lemma split_scan_two_pieces:
  "sep \<noteq> [] \<Longrightarrow> includes_str s sep \<Longrightarrow> 2 \<le> length (split_scan sep cur s)"
proof (induction sep cur s rule: split_scan.induct)
  case (1 sep cur)
  then show ?case by simp
next
  case (2 sep cur c cs)
  show ?case
  proof (cases "prefix sep (c # cs)")
    case True
    have "split_scan sep [] (drop (length sep) (c # cs)) \<noteq> []"
      by (rule split_scan_not_Nil)
    then have "1 \<le> length (split_scan sep [] (drop (length sep) (c # cs)))"
      by (cases "split_scan sep [] (drop (length sep) (c # cs))") simp_all
    with True "2.prems" show ?thesis by simp
  next
    case False
    with "2.prems" have "includes_str cs sep" by simp
    with False "2.prems" "2.IH"(3) show ?thesis by simp
  qed
qed

lemma split_scan_no_match:
  "\<not> includes_str s sep \<Longrightarrow> split_scan sep cur s = [rev cur @ s]"
proof (induction s arbitrary: cur)
  case Nil
  then show ?case by simp
next
  case (Cons c cs)
  from Cons.prems have "sep \<noteq> []" by (cases sep) auto
  with Cons show ?case by simp
qed

lemma prefix_shorter:
  assumes "prefix sep (pre @ sep @ post)" and "pre \<noteq> []"
  shows "prefix sep (pre @ butlast sep)"
proof (cases "sep = []")
  case True
  then show ?thesis by simp
next
  case False
  then have eq: "pre @ sep @ post = (pre @ butlast sep) @ (last sep # post)"
    by simp
  have "prefix (pre @ butlast sep) (pre @ sep @ post)"
    unfolding eq by (rule prefixI) simp
  moreover have "length sep \<le> length (pre @ butlast sep)"
    using assms(2) by (cases pre) simp_all
  ultimately show ?thesis
    using assms(1) by (rule prefix_length_prefix[rotated])
qed

lemma split_scan_first:
  "sep \<noteq> [] \<Longrightarrow> \<not> includes_str (pre @ butlast sep) sep \<Longrightarrow>
   split_scan sep cur (pre @ sep @ post) = (rev cur @ pre) # split_scan sep [] post"
proof (induction pre arbitrary: cur)
  case Nil
  then obtain c cs where sep: "sep = c # cs" by (cases sep) auto
  then show ?case by simp
next
  case (Cons p ps)
  from Cons.prems(2) have np: "\<not> prefix sep ((p # ps) @ butlast sep)"
    and ni: "\<not> includes_str (ps @ butlast sep) sep" by simp_all
  have "\<not> prefix sep ((p # ps) @ sep @ post)"
    using np prefix_shorter[of sep "p # ps" post] by blast
  with Cons.prems(1) Cons.IH[OF Cons.prems(1) ni, of "p # cur"] show ?case by simp
qed

lemma set_hd_split_scan: "set (hd (split_scan sep cur s)) \<subseteq> set cur \<union> set s"
  by (induction sep cur s rule: split_scan.induct) auto

lemma set_trim: "set (trim s) \<subseteq> set s"
proof -
  have "set (trim s) \<subseteq> set (rev (dropWhile isWhiteSpace s))"
    unfolding trim_def using set_dropWhileD by fastforce
  also have "\<dots> \<subseteq> set s"
    using set_dropWhileD by fastforce
  finally show ?thesis .
qed

lemma not_includes_char: "c \<notin> set s \<Longrightarrow> \<not> includes_str s [c]"
  by (induction s) auto

section \<open>The handlers\<close>

lemma proposalTitle_total: "\<exists>t. proposalTitle s = Inr t"
proof (cases "includes_str s ''titled''")
  case True
  then have "2 \<le> length (split_scan ''titled'' [] s)"
    by (intro split_scan_two_pieces) simp_all
  with True show ?thesis
    by (simp add: proposalTitle_def split_str_def index_def)
next
  case False
  then show ?thesis by (simp add: proposalTitle_def)
qed

lemma proposalTitle_no_marker:
  "\<not> includes_str s ''titled'' \<Longrightarrow> proposalTitle s = Inr ''Untitled Proposal''"
  by (simp add: proposalTitle_def)

lemma proposalTitle_no_quote:
  assumes first: "\<not> includes_str (pre @ ''title'') ''titled''"
    and nq: "dquote \<notin> set post"
  shows "proposalTitle (pre @ ''titled'' @ post) = Inr ''Untitled Proposal''"
proof -
  let ?s = "pre @ ''titled'' @ post"
  have inc: "includes_str ?s ''titled''"
    unfolding includes_str_sublist by (rule sublist_appendI)
  have "split_scan ''titled'' [] ?s = pre # split_scan ''titled'' [] post"
    using first split_scan_first[of "''titled''" pre "[]" post] by simp
  moreover obtain x xs where xs: "split_scan ''titled'' [] post = x # xs"
    using split_scan_not_Nil[of "''titled''" "[]" post]
    by (cases "split_scan ''titled'' [] post") auto
  ultimately have piece: "index (split_str ?s ''titled'') 1 = Some x"
    by (simp add: split_str_def index_def)
  have "set x \<subseteq> set post"
    using set_hd_split_scan[of "''titled''" "[]" post] xs by simp
  with nq set_trim[of x] have "dquote \<notin> set (trim x)" by blast
  then have "split_scan [dquote] [] (trim x) = [trim x]"
    using split_scan_no_match[of "trim x" "[dquote]" "[]"] not_includes_char by simp
  then have "index (split_str (trim x) [dquote]) 1 = None"
    by (simp add: split_str_def index_def)
  with inc piece show ?thesis
    by (simp add: proposalTitle_def or_else_def)
qed

lemma votingEndValid_env0: "votingEndValid env0"
  by (simp add: votingEndValid_def validTime_def env0_def)

lemma createProposal_outcome:
  "proposalTitle s = Inr t \<Longrightarrow>
   createProposal this s w =
     (if votingEndValid w
      then Inr \<lparr>success = True,
                message = ''Created new governance proposal: '' @ [dquote] @ t @ [dquote],
                data = Some (ProposalResult ''proposal'' t (clock w (reads w))
                         ''Gx7dJvn9PD9G6uUPsVQCjrCgPy9ogHZ7GzZm5HVF37EL''
                         (clock w (reads w + 1) + 259200000)),
                error = None,
                transactionId = None\<rparr>
      else Inl RangeError, w\<lparr>reads := reads w + 2\<rparr>)"
  by (simp add: createProposal_def dateNow_def toISOString_def votingEndValid_def)

lemma createProposal_result:
  "proposalTitle s = Inr t \<Longrightarrow> votingEndValid w \<Longrightarrow>
   createProposal this s w =
     (Inr \<lparr>success = True,
            message = ''Created new governance proposal: '' @ [dquote] @ t @ [dquote],
            data = Some (ProposalResult ''proposal'' t (clock w (reads w))
                     ''Gx7dJvn9PD9G6uUPsVQCjrCgPy9ogHZ7GzZm5HVF37EL''
                     (clock w (reads w + 1) + 259200000)),
            error = None,
            transactionId = None\<rparr>, w\<lparr>reads := reads w + 2\<rparr>)"
  by (simp add: createProposal_outcome)

lemma castVote_result:
  "castVote this s w =
     (Inr \<lparr>success = True,
            message = ''Vote cast ''
              @ (if includes_str (toLowerCase s) ''against'' then ''against'' else ''for'')
              @ '' proposal'',
            data = Some (VoteResult ''vote''
                     ''Gx7dJvn9PD9G6uUPsVQCjrCgPy9ogHZ7GzZm5HVF37EL''
                     (if includes_str (toLowerCase s) ''against'' then ''against'' else ''for'')
                     ''1000'' (clock w (reads w))),
            error = None,
            transactionId = None\<rparr>, w\<lparr>reads := reads w + 1\<rparr>)"
  by (simp add: castVote_def dateNow_def)

lemma treasuryAction_result:
  "treasuryAction this s w =
     (Inr \<lparr>success = True,
            message = ''Treasury information retrieved'',
            data = Some (TreasurySnapshot ''treasury'' ''15000 SOL''
                     [\<lparr>mint = ''EPjFWdd5AufqSSqeM2qN1xzybapC8G4wEGGkZwyTDt1v'',
                       symbol = ''USDC'', amount = ''25000''\<rparr>,
                      \<lparr>mint = ''mSoLzYCxHdYgdzU16g5QSh3i5K3z3KZK7ytfqcJm7So'',
                       symbol = ''mSOL'', amount = ''150''\<rparr>]
                     ''G5trKGedmTdqpn6wqfX3KdPnBXriazkWuSEBrUEFQ1qJ'' (clock w (reads w))),
            error = None,
            transactionId = None\<rparr>, w\<lparr>reads := reads w + 1\<rparr>)"
  by (simp add: treasuryAction_def dateNow_def)

section \<open>Routing in \<open>processInstruction\<close>\<close>

lemma processInstruction_proposal:
  "includes_str (toLowerCase s) ''create proposal'' \<Longrightarrow>
   processInstruction this s w = createProposal this s w"
  by (simp add: processInstruction_def)

lemma processInstruction_vote:
  "\<not> includes_str (toLowerCase s) ''create proposal'' \<Longrightarrow>
   includes_str (toLowerCase s) ''vote'' \<or> includes_str (toLowerCase s) ''cast'' \<Longrightarrow>
   processInstruction this s w = castVote this s w"
  by (simp add: processInstruction_def)

lemma processInstruction_treasury:
  "\<not> includes_str (toLowerCase s) ''create proposal'' \<Longrightarrow>
   \<not> includes_str (toLowerCase s) ''vote'' \<Longrightarrow>
   \<not> includes_str (toLowerCase s) ''cast'' \<Longrightarrow>
   includes_str (toLowerCase s) ''treasury'' \<Longrightarrow>
   processInstruction this s w = treasuryAction this s w"
  by (simp add: processInstruction_def)

lemma processInstruction_unsupported:
  "\<not> includes_str (toLowerCase s) ''create proposal'' \<Longrightarrow>
   \<not> includes_str (toLowerCase s) ''vote'' \<Longrightarrow>
   \<not> includes_str (toLowerCase s) ''cast'' \<Longrightarrow>
   \<not> includes_str (toLowerCase s) ''treasury'' \<Longrightarrow>
   processInstruction this s w =
     (Inr \<lparr>success = False,
            message = ''Unsupported governance instruction'',
            data = None,
            error = Some \<lparr>code = 400, message = ''Could not parse governance instruction''\<rparr>,
            transactionId = None\<rparr>, w)"
  by (simp add: processInstruction_def)

lemma processInstruction_resolves:
  "(\<exists>r w'. processInstruction this s w = (Inr r, w'))
     = (votingEndValid w \<or> \<not> includes_str (toLowerCase s) ''create proposal'')"
proof -
  obtain t where "proposalTitle s = Inr t"
    using proposalTitle_total by blast
  then show ?thesis
    by (simp add: processInstruction_def createProposal_outcome castVote_result
        treasuryAction_result)
qed

lemma processInstruction_resolves_valid:
  "votingEndValid w \<Longrightarrow> \<exists>r w'. processInstruction this s w = (Inr r, w')"
  by (simp add: processInstruction_resolves)

lemma processInstruction_no_TypeError:
  "fst (processInstruction this s w) \<noteq> Inl TypeError"
proof -
  obtain t where "proposalTitle s = Inr t"
    using proposalTitle_total by blast
  then show ?thesis
    by (simp add: processInstruction_def createProposal_outcome castVote_result
        treasuryAction_result)
qed

lemma processInstruction_signerCalls:
  "signerCalls (snd (processInstruction this s w)) = signerCalls w"
proof -
  obtain t where "proposalTitle s = Inr t"
    using proposalTitle_total by blast
  then show ?thesis
    by (simp add: processInstruction_def createProposal_outcome castVote_result
        treasuryAction_result)
qed

lemma processInstruction_unsigned:
  "processInstruction this s w = (Inr r, w') \<Longrightarrow>
   transactionId r = None \<and> signerCalls w' = signerCalls w"
proof -
  assume run: "processInstruction this s w = (Inr r, w')"
  obtain t where "proposalTitle s = Inr t"
    using proposalTitle_total by blast
  with run show ?thesis
    by (auto simp add: processInstruction_def createProposal_outcome castVote_result
        treasuryAction_result split: if_splits)
qed

lemma processInstruction_exclusive:
  "processInstruction this s w = (Inr r, w') \<Longrightarrow>
   (success r = (error r = None)) \<and> ((\<not> success r) = (data r = None))"
proof -
  assume run: "processInstruction this s w = (Inr r, w')"
  obtain t where "proposalTitle s = Inr t"
    using proposalTitle_total by blast
  with run show ?thesis
    by (auto simp add: processInstruction_def createProposal_outcome castVote_result
        treasuryAction_result split: if_splits)
qed

lemma payloadType_processInstruction:
  "payloadType (processInstruction this s w) =
     (if includes_str (toLowerCase s) ''create proposal''
        then (if votingEndValid w then Some ''proposal'' else None)
      else if includes_str (toLowerCase s) ''vote'' \<or> includes_str (toLowerCase s) ''cast''
        then Some ''vote''
      else if includes_str (toLowerCase s) ''treasury'' then Some ''treasury''
      else None)"
proof -
  obtain t where "proposalTitle s = Inr t"
    using proposalTitle_total by blast
  then show ?thesis
    by (simp add: payloadType_def processInstruction_def createProposal_outcome
        castVote_result treasuryAction_result)
qed

lemma payloadType_range:
  "payloadType (processInstruction this s w)
     \<in> {None, Some ''proposal'', Some ''vote'', Some ''treasury''}"
  by (simp add: payloadType_processInstruction)

lemma processInstruction_flags:
  "processInstruction this s w = (Inr r, w') \<Longrightarrow>
   success r = (includes_str (toLowerCase s) ''create proposal''
                 \<or> includes_str (toLowerCase s) ''vote''
                 \<or> includes_str (toLowerCase s) ''cast''
                 \<or> includes_str (toLowerCase s) ''treasury'')
   \<and> (error r = None) = success r
   \<and> map_option type (data r) =
       (if includes_str (toLowerCase s) ''create proposal'' then Some ''proposal''
        else if includes_str (toLowerCase s) ''vote'' \<or> includes_str (toLowerCase s) ''cast''
          then Some ''vote''
        else if includes_str (toLowerCase s) ''treasury'' then Some ''treasury''
        else None)"
proof -
  assume run: "processInstruction this s w = (Inr r, w')"
  obtain t where "proposalTitle s = Inr t"
    using proposalTitle_total by blast
  with run show ?thesis
    by (auto simp add: processInstruction_def createProposal_outcome
        castVote_result treasuryAction_result split: if_splits)
qed

section \<open>The claims\<close>

subsection \<open>C1: transaction identifiers and the signer\<close>

text \<open>
  C1 says that an instruction routed to \<open>createProposal\<close> or \<open>castVote\<close> comes back
  with a non-empty \<open>transactionId\<close> obtained from exactly one call of
  \<open>executeTransaction\<close>, and that one routed to \<open>treasuryAction\<close> comes back without
  \<open>transactionId\<close>. No handler calls \<open>executeTransaction\<close> and no envelope literal
  has a \<open>transactionId\<close> field. At the instruction \<open>create proposal\<close> the proposal
  handler answers, \<open>transactionId\<close> is absent and the signer has not been called:
\<close>

theorem proposal_not_signed:
  "payloadType (processInstruction demoAgent ''create proposal'' env0) = Some ''proposal''
   \<and> fst (processInstruction demoAgent ''create proposal'' env0) =
       Inr \<lparr>success = True,
            message = ''Created new governance proposal: '' @ [dquote] @ ''Untitled Proposal'' @ [dquote],
            data = Some (ProposalResult ''proposal'' ''Untitled Proposal'' 1700000000000
                     ''Gx7dJvn9PD9G6uUPsVQCjrCgPy9ogHZ7GzZm5HVF37EL'' 1700259200001),
            error = None,
            transactionId = None\<rparr>
   \<and> signerCalls (snd (processInstruction demoAgent ''create proposal'' env0)) = 0"
proof -
  have lc: "toLowerCase ''create proposal'' = ''create proposal''"
    by code_simp
  have t: "proposalTitle ''create proposal'' = Inr ''Untitled Proposal''"
    by (rule proposalTitle_no_marker) simp
  have v: "votingEndValid env0"
    by (rule votingEndValid_env0)
  have p: "processInstruction demoAgent ''create proposal'' env0
      = createProposal demoAgent ''create proposal'' env0"
    by (rule processInstruction_proposal) (simp add: lc)
  show ?thesis
    unfolding p createProposal_result[OF t v] by (simp add: payloadType_def env0_def)
qed

text \<open>
  C1 as amended: for every instruction, whichever handler \<open>processInstruction\<close>
  routes it to (proposal, vote, treasury) or the unsupported branch, the envelope
  it resolves with has no \<open>transactionId\<close>, and \<open>executeTransaction\<close> is not called.
  The first two conjuncts say so for every state; the third adds that an envelope
  is returned whenever the clock is in the range where \<open>createProposal\<close> can render
  the end of the voting period.
\<close>

theorem no_handler_signs:
  "signerCalls (snd (processInstruction this s w)) = signerCalls w
   \<and> (processInstruction this s w = (Inr r, w') \<longrightarrow> transactionId r = None)
   \<and> (votingEndValid w \<longrightarrow>
        (\<exists>r w'. processInstruction this s w = (Inr r, w') \<and> transactionId r = None
           \<and> signerCalls w' = signerCalls w))"
proof (intro conjI impI)
  show "signerCalls (snd (processInstruction this s w)) = signerCalls w"
    by (rule processInstruction_signerCalls)
next
  assume "processInstruction this s w = (Inr r, w')"
  then show "transactionId r = None"
    using processInstruction_unsigned by blast
next
  assume "votingEndValid w"
  then obtain r0 w0 where run: "processInstruction this s w = (Inr r0, w0)"
    using processInstruction_resolves[of this s w] by blast
  with processInstruction_unsigned[OF run]
  show "\<exists>r w'. processInstruction this s w = (Inr r, w') \<and> transactionId r = None
           \<and> signerCalls w' = signerCalls w"
    by (intro exI[of _ r0] exI[of _ w0]) simp
qed

theorem no_handler_signs_witness:
  "votingEndValid env0
   \<and> signerCalls (snd (processInstruction demoAgent ''create proposal'' env0)) = signerCalls env0
   \<and> (\<exists>r w'. processInstruction demoAgent ''create proposal'' env0 = (Inr r, w')
         \<and> transactionId r = None \<and> signerCalls w' = signerCalls env0)"
  using no_handler_signs[of demoAgent "''create proposal''" env0] votingEndValid_env0
  by simp

subsection \<open>C2: instructions without a keyword\<close>

text \<open>
  C2 says that an instruction containing none of \<open>create proposal\<close>, \<open>vote\<close>,
  \<open>cast\<close>, \<open>treasury\<close> (case-insensitively) yields \<open>success = false\<close>, error code
  400 and the error message \<open>Could not parse instruction\<close>, without throwing. The
  code's error message is \<open>Could not parse governance instruction\<close>; at \<open>Stake 5 SOL\<close>:
\<close>

theorem unsupported_message_differs:
  "\<not> includes_str (toLowerCase ''Stake 5 SOL'') ''create proposal''
   \<and> \<not> includes_str (toLowerCase ''Stake 5 SOL'') ''vote''
   \<and> \<not> includes_str (toLowerCase ''Stake 5 SOL'') ''cast''
   \<and> \<not> includes_str (toLowerCase ''Stake 5 SOL'') ''treasury''
   \<and> fst (processInstruction demoAgent ''Stake 5 SOL'' env0) =
       Inr \<lparr>success = False,
            message = ''Unsupported governance instruction'',
            data = None,
            error = Some \<lparr>code = 400, message = ''Could not parse governance instruction''\<rparr>,
            transactionId = None\<rparr>
   \<and> ''Could not parse governance instruction'' \<noteq> ''Could not parse instruction''"
proof -
  have lc: "toLowerCase ''Stake 5 SOL'' = ''stake 5 sol''"
    by code_simp
  show ?thesis
    by (simp add: processInstruction_def lc)
qed

text \<open>
  C2 as amended: for every instruction containing (case-insensitively) none of the
  four keywords, the promise resolves with \<open>success = false\<close>, no \<open>data\<close>, error
  code 400 and error message \<open>Could not parse governance instruction\<close>; nothing is
  thrown and the state is untouched.
\<close>

theorem unsupported_instruction:
  assumes "\<not> includes_str (toLowerCase s) ''create proposal''"
    and "\<not> includes_str (toLowerCase s) ''vote''"
    and "\<not> includes_str (toLowerCase s) ''cast''"
    and "\<not> includes_str (toLowerCase s) ''treasury''"
  shows "processInstruction this s w =
     (Inr \<lparr>success = False,
            message = ''Unsupported governance instruction'',
            data = None,
            error = Some \<lparr>code = 400, message = ''Could not parse governance instruction''\<rparr>,
            transactionId = None\<rparr>, w)"
  using assms by (simp add: processInstruction_def)

theorem unsupported_instruction_witness:
  "\<not> includes_str (toLowerCase ''Stake 5 SOL'') ''create proposal''
   \<and> \<not> includes_str (toLowerCase ''Stake 5 SOL'') ''vote''
   \<and> \<not> includes_str (toLowerCase ''Stake 5 SOL'') ''cast''
   \<and> \<not> includes_str (toLowerCase ''Stake 5 SOL'') ''treasury''
   \<and> processInstruction demoAgent ''Stake 5 SOL'' env0 =
     (Inr \<lparr>success = False,
            message = ''Unsupported governance instruction'',
            data = None,
            error = Some \<lparr>code = 400, message = ''Could not parse governance instruction''\<rparr>,
            transactionId = None\<rparr>, env0)"
proof -
  have k: "\<not> includes_str (toLowerCase ''Stake 5 SOL'') ''create proposal''"
    "\<not> includes_str (toLowerCase ''Stake 5 SOL'') ''vote''"
    "\<not> includes_str (toLowerCase ''Stake 5 SOL'') ''cast''"
    "\<not> includes_str (toLowerCase ''Stake 5 SOL'') ''treasury''"
    by code_simp+
  from k unsupported_instruction[OF k, of demoAgent env0] show ?thesis
    by (intro conjI)
qed

subsection \<open>C3: the title of a proposal\<close>

text \<open>
  C3 says that \<open>Create a new proposal titled "Fund Grants"\<close> yields a payload with
  title \<open>Fund Grants\<close>. The routing looks for the contiguous substring
  \<open>create proposal\<close>, which \<open>create a new proposal\<close> does not contain, and the text
  has none of the other keywords: the instruction is answered by the unsupported
  branch, with no payload at all.
\<close>

theorem fund_grants_unsupported:
  "processInstruction this
     (''Create a new proposal titled '' @ [dquote] @ ''Fund Grants'' @ [dquote]) w =
     (Inr \<lparr>success = False,
            message = ''Unsupported governance instruction'',
            data = None,
            error = Some \<lparr>code = 400, message = ''Could not parse governance instruction''\<rparr>,
            transactionId = None\<rparr>, w)"
proof (rule processInstruction_unsupported)
  let ?s = "''Create a new proposal titled '' @ [dquote] @ ''Fund Grants'' @ [dquote]"
  show "\<not> includes_str (toLowerCase ?s) ''create proposal''" by code_simp
  show "\<not> includes_str (toLowerCase ?s) ''vote''" by code_simp
  show "\<not> includes_str (toLowerCase ?s) ''cast''" by code_simp
  show "\<not> includes_str (toLowerCase ?s) ''treasury''" by code_simp
qed

text \<open>
  The instruction that \<open>main\<close> submits to create a proposal has the same phrasing;
  it contains the word \<open>Treasury\<close> and is answered by the treasury handler. With
  the keyword phrased as the routing expects it the title is extracted, and without
  the marker \<open>titled\<close> the title is the default, as the claim says (both when
  the end of the voting period can be rendered).
\<close>

lemma main_instruction_reaches_treasury:
  "payloadType (processInstruction this
     (''Create a new proposal titled '' @ [dquote]
        @ ''Increase Treasury Allocation for Developer Grants'' @ [dquote]
        @ '' to allocate 1000 USDC for developer grants'') w) = Some ''treasury''"
proof -
  let ?s = "''Create a new proposal titled '' @ [dquote]
        @ ''Increase Treasury Allocation for Developer Grants'' @ [dquote]
        @ '' to allocate 1000 USDC for developer grants''"
  have "\<not> includes_str (toLowerCase ?s) ''create proposal''" by code_simp
  moreover have "\<not> includes_str (toLowerCase ?s) ''vote''" by code_simp
  moreover have "\<not> includes_str (toLowerCase ?s) ''cast''" by code_simp
  moreover have "includes_str (toLowerCase ?s) ''treasury''" by code_simp
  ultimately show ?thesis
    by (simp only: payloadType_processInstruction if_True if_False simp_thms)
qed

lemma title_extracted_after_keyword:
  assumes v: "votingEndValid w"
  shows "\<exists>r w'. processInstruction this
      (''Create proposal titled '' @ [dquote] @ ''Fund Grants'' @ [dquote]) w = (Inr r, w')
     \<and> map_option title (data r) = Some ''Fund Grants''"
proof -
  let ?s = "''Create proposal titled '' @ [dquote] @ ''Fund Grants'' @ [dquote]"
  have "includes_str (toLowerCase ?s) ''create proposal''" by code_simp
  then have "processInstruction this ?s w = createProposal this ?s w"
    by (rule processInstruction_proposal)
  moreover have "proposalTitle ?s = Inr ''Fund Grants''" by code_simp
  ultimately show ?thesis
    using v by (simp only: createProposal_result) simp
qed

lemma default_title_without_marker:
  assumes "includes_str (toLowerCase s) ''create proposal''"
    and "\<not> includes_str s ''titled''"
    and "votingEndValid w"
  shows "\<exists>r w'. processInstruction this s w = (Inr r, w')
     \<and> map_option title (data r) = Some ''Untitled Proposal''"
  using assms
  by (simp add: processInstruction_proposal proposalTitle_no_marker createProposal_result)

subsection \<open>C4: success, error and data\<close>

text \<open>
  C4: every envelope that \<open>processInstruction\<close> resolves with, for any instruction
  and in any state, has \<open>success = true\<close> exactly when \<open>error\<close> is absent, and
  \<open>success = false\<close> exactly when \<open>data\<close> is absent; and such an envelope is
  produced whenever the clock is in the range where \<open>createProposal\<close> can render
  the end of the voting period.
\<close>

theorem success_error_data_exclusive:
  "(processInstruction this s w = (Inr r, w') \<longrightarrow>
      (success r = (error r = None)) \<and> ((\<not> success r) = (data r = None)))
   \<and> (votingEndValid w \<longrightarrow>
        (\<exists>r w'. processInstruction this s w = (Inr r, w')
           \<and> (success r = (error r = None)) \<and> ((\<not> success r) = (data r = None))))"
proof (intro conjI impI)
  assume "processInstruction this s w = (Inr r, w')"
  then show "success r = (error r = None)" and "(\<not> success r) = (data r = None)"
    using processInstruction_exclusive by blast+
next
  assume "votingEndValid w"
  then obtain r0 w0 where run: "processInstruction this s w = (Inr r0, w0)"
    using processInstruction_resolves[of this s w] by blast
  have e: "success r0 = (error r0 = None)"
    by (rule conjunct1[OF processInstruction_exclusive[OF run]])
  have d: "(\<not> success r0) = (data r0 = None)"
    by (rule conjunct2[OF processInstruction_exclusive[OF run]])
  show "\<exists>r w'. processInstruction this s w = (Inr r, w')
           \<and> (success r = (error r = None)) \<and> ((\<not> success r) = (data r = None))"
    by (intro exI[of _ r0] exI[of _ w0] conjI) (rule run e d)+
qed

theorem success_error_data_exclusive_witness:
  "votingEndValid env0
   \<and> (\<exists>r w'. processInstruction demoAgent ''create proposal'' env0 = (Inr r, w')
         \<and> (success r = (error r = None)) \<and> ((\<not> success r) = (data r = None)))
   \<and> (\<exists>r w'. processInstruction demoAgent ''Stake 5 SOL'' env0 = (Inr r, w')
         \<and> (success r = (error r = None)) \<and> ((\<not> success r) = (data r = None)))"
  using success_error_data_exclusive[of demoAgent "''create proposal''" env0]
    success_error_data_exclusive[of demoAgent "''Stake 5 SOL''" env0] votingEndValid_env0
  by simp

subsection \<open>C5: advertised capabilities and handlers\<close>

text \<open>
  C5 says that each of the five capabilities returned by \<open>getCapabilities\<close> has a
  handler that some instruction is routed to. The handlers are told apart by the
  \<open>type\<close> of their payload, and there are three of them. Read as: one can name for
  each capability its handler, different capabilities having different handlers,
  such that some instruction reaches it, the claim fails, whatever the assignment:
\<close>

theorem capabilities_exceed_handlers:
  "\<not> (\<exists>h. inj_on h (set (getCapabilities demoAgent))
         \<and> (\<forall>c \<in> set (getCapabilities demoAgent).
               \<exists>s w. payloadType (processInstruction demoAgent s w) = Some (h c)))"
proof
  assume "\<exists>h. inj_on h (set (getCapabilities demoAgent))
         \<and> (\<forall>c \<in> set (getCapabilities demoAgent).
               \<exists>s w. payloadType (processInstruction demoAgent s w) = Some (h c))"
  then obtain h where inj: "inj_on h (set (getCapabilities demoAgent))"
    and reach: "\<forall>c \<in> set (getCapabilities demoAgent).
               \<exists>s w. payloadType (processInstruction demoAgent s w) = Some (h c)"
    by blast
  have "h ` set (getCapabilities demoAgent) \<subseteq> {''proposal'', ''vote'', ''treasury''}"
  proof
    fix x assume "x \<in> h ` set (getCapabilities demoAgent)"
    then obtain c where "c \<in> set (getCapabilities demoAgent)" and x: "x = h c" by blast
    with reach obtain s w where "payloadType (processInstruction demoAgent s w) = Some x"
      by blast
    with payloadType_range[of demoAgent s w]
    show "x \<in> {''proposal'', ''vote'', ''treasury''}" by simp
  qed
  then have "card (h ` set (getCapabilities demoAgent)) \<le> card {''proposal'', ''vote'', ''treasury''}"
    by (intro card_mono) simp_all
  also have "\<dots> = 3" by simp
  finally have le: "card (h ` set (getCapabilities demoAgent)) \<le> 3" .
  have "distinct (getCapabilities demoAgent)"
    by (simp add: getCapabilities_def)
  then have "card (set (getCapabilities demoAgent)) = 5"
    by (simp add: distinct_card getCapabilities_def)
  with inj have "card (h ` set (getCapabilities demoAgent)) = 5"
    by (simp add: card_image)
  with le show False by simp
qed

text \<open>
  C5 as amended: of the five strings returned by \<open>getCapabilities\<close>, the first
  three (Proposal Creation, Vote Casting, DAO Treasury Management) each have a
  handler that some instruction is routed to (payload types \<open>proposal\<close>, \<open>vote\<close>,
  \<open>treasury\<close>; the proposal handler returns its payload when the end of the voting
  period can be rendered); Governance Analytics and Member Management have none,
  since every instruction is routed to one of these three handlers or to the
  unsupported branch.
\<close>

theorem three_handlers_for_five_capabilities:
  "getCapabilities this =
     [''Proposal Creation'', ''Vote Casting'', ''DAO Treasury Management'',
      ''Governance Analytics'', ''Member Management'']
   \<and> (\<exists>s. \<forall>w. votingEndValid w \<longrightarrow>
          payloadType (processInstruction this s w) = Some ''proposal'')
   \<and> (\<exists>s. \<forall>w. payloadType (processInstruction this s w) = Some ''vote'')
   \<and> (\<exists>s. \<forall>w. payloadType (processInstruction this s w) = Some ''treasury'')
   \<and> payloadType (processInstruction this s' w')
        \<in> {None, Some ''proposal'', Some ''vote'', Some ''treasury''}"
proof -
  have p: "includes_str (toLowerCase ''create proposal'') ''create proposal''"
    by code_simp
  have v: "\<not> includes_str (toLowerCase ''vote'') ''create proposal''"
    "includes_str (toLowerCase ''vote'') ''vote''"
    by code_simp+
  have t: "\<not> includes_str (toLowerCase ''treasury'') ''create proposal''"
    "\<not> includes_str (toLowerCase ''treasury'') ''vote''"
    "\<not> includes_str (toLowerCase ''treasury'') ''cast''"
    "includes_str (toLowerCase ''treasury'') ''treasury''"
    by code_simp+
  have "payloadType (processInstruction this ''create proposal'' w) = Some ''proposal''"
    if "votingEndValid w" for w
    using p that by (simp only: payloadType_processInstruction if_True)
  then have "\<forall>w. votingEndValid w \<longrightarrow>
      payloadType (processInstruction this ''create proposal'' w) = Some ''proposal''"
    by (intro allI impI)
  then have 1: "\<exists>s. \<forall>w. votingEndValid w \<longrightarrow>
      payloadType (processInstruction this s w) = Some ''proposal''"
    by (rule exI[of _ "''create proposal''"])
  have "\<forall>w. payloadType (processInstruction this ''vote'' w) = Some ''vote''"
    using v by (simp only: payloadType_processInstruction if_True if_False simp_thms)
  then have 2: "\<exists>s. \<forall>w. payloadType (processInstruction this s w) = Some ''vote''"
    by (rule exI[of _ "''vote''"])
  have "\<forall>w. payloadType (processInstruction this ''treasury'' w) = Some ''treasury''"
    using t by (simp only: payloadType_processInstruction if_True if_False simp_thms)
  then have 3: "\<exists>s. \<forall>w. payloadType (processInstruction this s w) = Some ''treasury''"
    by (rule exI[of _ "''treasury''"])
  show ?thesis
    by (intro conjI) (rule getCapabilities_def 1 2 3 payloadType_range)+
qed

theorem three_handlers_for_five_capabilities_witness:
  "votingEndValid env0
   \<and> (\<exists>s. payloadType (processInstruction demoAgent s env0) = Some ''proposal'')
   \<and> (\<exists>s. payloadType (processInstruction demoAgent s env0) = Some ''vote'')
   \<and> (\<exists>s. payloadType (processInstruction demoAgent s env0) = Some ''treasury'')"
proof -
  note th = three_handlers_for_five_capabilities[of demoAgent "[]" env0, THEN conjunct2]
  from th obtain s1 where
    "\<forall>w. votingEndValid w \<longrightarrow> payloadType (processInstruction demoAgent s1 w) = Some ''proposal''"
    by (elim conjE exE)
  with votingEndValid_env0
  have 1: "\<exists>s. payloadType (processInstruction demoAgent s env0) = Some ''proposal''"
    by (intro exI[of _ s1]) simp
  from th obtain s2 where
    "\<forall>w. payloadType (processInstruction demoAgent s2 w) = Some ''vote''"
    by (elim conjE exE)
  then have 2: "\<exists>s. payloadType (processInstruction demoAgent s env0) = Some ''vote''"
    by (intro exI[of _ s2]) simp
  from th obtain s3 where
    "\<forall>w. payloadType (processInstruction demoAgent s3 w) = Some ''treasury''"
    by (elim conjE exE)
  then have 3: "\<exists>s. payloadType (processInstruction demoAgent s env0) = Some ''treasury''"
    by (intro exI[of _ s3]) simp
  show ?thesis
    by (intro conjI) (rule votingEndValid_env0 1 2 3)+
qed

subsection \<open>C6: first match wins\<close>

text \<open>
  C6 says that the routing is case-insensitive, ordered, first-match substring
  routing, and in particular that every instruction containing both \<open>vote\<close> and
  \<open>treasury\<close> is answered by the vote handler. The rule for \<open>create proposal\<close> is
  declared before the two, so an instruction that contains all three keywords is
  answered by the proposal handler:
\<close>

theorem proposal_rule_precedes_vote:
  "includes_str (toLowerCase ''Create proposal to vote on treasury spending'') ''vote''
   \<and> includes_str (toLowerCase ''Create proposal to vote on treasury spending'') ''treasury''
   \<and> payloadType (processInstruction demoAgent
         ''Create proposal to vote on treasury spending'' env0) = Some ''proposal''"
proof -
  let ?s = "''Create proposal to vote on treasury spending''"
  have "includes_str (toLowerCase ?s) ''vote''" by code_simp
  moreover have "includes_str (toLowerCase ?s) ''treasury''" by code_simp
  moreover have "includes_str (toLowerCase ?s) ''create proposal''" by code_simp
  ultimately show ?thesis
    using votingEndValid_env0
    by (simp only: payloadType_processInstruction if_True simp_thms)
qed

text \<open>
  C6 as amended: the handler is the one of the first rule that matches the
  lower-cased instruction, in the order \<open>create proposal\<close>, then \<open>vote\<close> or \<open>cast\<close>,
  then \<open>treasury\<close>; in particular every instruction that contains both \<open>vote\<close> and
  \<open>treasury\<close> and does not contain \<open>create proposal\<close> is answered by the vote
  handler. (The proposal handler, once selected, returns its payload when the end
  of the voting period can be rendered and rejects otherwise.)
\<close>

theorem first_match_routing:
  "payloadType (processInstruction this s w) =
     (if includes_str (toLowerCase s) ''create proposal''
        then (if votingEndValid w then Some ''proposal'' else None)
      else if includes_str (toLowerCase s) ''vote'' \<or> includes_str (toLowerCase s) ''cast''
        then Some ''vote''
      else if includes_str (toLowerCase s) ''treasury'' then Some ''treasury''
      else None)
   \<and> (includes_str (toLowerCase s) ''vote'' \<and> includes_str (toLowerCase s) ''treasury''
        \<and> \<not> includes_str (toLowerCase s) ''create proposal''
      \<longrightarrow> payloadType (processInstruction this s w) = Some ''vote'')"
  by (simp add: payloadType_processInstruction)

theorem first_match_routing_witness:
  "includes_str (toLowerCase ''Vote on the Treasury budget'') ''vote''
   \<and> includes_str (toLowerCase ''Vote on the Treasury budget'') ''treasury''
   \<and> \<not> includes_str (toLowerCase ''Vote on the Treasury budget'') ''create proposal''
   \<and> payloadType (processInstruction demoAgent ''Vote on the Treasury budget'' env0)
       = Some ''vote''"
proof -
  let ?s = "''Vote on the Treasury budget''"
  have v: "includes_str (toLowerCase ?s) ''vote''" by code_simp
  have t: "includes_str (toLowerCase ?s) ''treasury''" by code_simp
  have p: "\<not> includes_str (toLowerCase ?s) ''create proposal''" by code_simp
  from first_match_routing[of demoAgent ?s env0] v t p
  have "payloadType (processInstruction demoAgent ?s env0) = Some ''vote''" by blast
  with v t p show ?thesis by blast
qed

subsection \<open>C7: the direction of a vote\<close>

text \<open>
  C7: for every instruction routed to the vote handler, the payload's \<open>vote\<close> is
  \<open>against\<close> if the instruction contains \<open>against\<close> (case-insensitively) and \<open>for\<close>
  otherwise; so \<open>Vote for proposal 7\<close> and a bare \<open>vote\<close> give \<open>for\<close>.
\<close>

theorem vote_direction:
  assumes "\<not> includes_str (toLowerCase s) ''create proposal''"
    and "includes_str (toLowerCase s) ''vote'' \<or> includes_str (toLowerCase s) ''cast''"
  shows "\<exists>r w'. processInstruction this s w = (Inr r, w')
     \<and> map_option type (data r) = Some ''vote''
     \<and> map_option vote (data r) =
         Some (if includes_str (toLowerCase s) ''against'' then ''against'' else ''for'')"
  using assms by (simp add: processInstruction_vote castVote_result)

theorem vote_direction_witness:
  "(\<exists>r w'. processInstruction demoAgent ''Vote against proposal 7'' env0 = (Inr r, w')
      \<and> map_option vote (data r) = Some ''against'')
   \<and> (\<exists>r w'. processInstruction demoAgent ''Vote for proposal 7'' env0 = (Inr r, w')
      \<and> map_option vote (data r) = Some ''for'')
   \<and> (\<exists>r w'. processInstruction demoAgent ''vote'' env0 = (Inr r, w')
      \<and> map_option vote (data r) = Some ''for'')"
proof -
  have a: "\<not> includes_str (toLowerCase ''Vote against proposal 7'') ''create proposal''"
    "includes_str (toLowerCase ''Vote against proposal 7'') ''vote''"
    "includes_str (toLowerCase ''Vote against proposal 7'') ''against''"
    by code_simp+
  have f: "\<not> includes_str (toLowerCase ''Vote for proposal 7'') ''create proposal''"
    "includes_str (toLowerCase ''Vote for proposal 7'') ''vote''"
    "\<not> includes_str (toLowerCase ''Vote for proposal 7'') ''against''"
    by code_simp+
  have b: "\<not> includes_str (toLowerCase ''vote'') ''create proposal''"
    "includes_str (toLowerCase ''vote'') ''vote''"
    "\<not> includes_str (toLowerCase ''vote'') ''against''"
    by code_simp+
  from vote_direction[of "''Vote against proposal 7''" demoAgent env0] a
  have 1: "\<exists>r w'. processInstruction demoAgent ''Vote against proposal 7'' env0 = (Inr r, w')
      \<and> map_option vote (data r) = Some ''against''"
    by (simp only: simp_thms if_True) blast
  from vote_direction[of "''Vote for proposal 7''" demoAgent env0] f
  have 2: "\<exists>r w'. processInstruction demoAgent ''Vote for proposal 7'' env0 = (Inr r, w')
      \<and> map_option vote (data r) = Some ''for''"
    by (simp only: simp_thms if_False) blast
  from vote_direction[of "''vote''" demoAgent env0] b
  have 3: "\<exists>r w'. processInstruction demoAgent ''vote'' env0 = (Inr r, w')
      \<and> map_option vote (data r) = Some ''for''"
    by (simp only: simp_thms if_False) blast
  from 1 2 3 show ?thesis by blast
qed

subsection \<open>C8: the simulated signer\<close>

text \<open>
  C8: \<open>executeTransaction\<close> returns the string \<open>simulated-transaction-signature\<close>
  for every argument, agent and state, so its result does not depend on its
  argument; it submits nothing: the state is as before, except that the call has
  been counted.
\<close>

theorem executeTransaction_fixed:
  "fst (executeTransaction this tx w) = ''simulated-transaction-signature''
   \<and> fst (executeTransaction this tx w) = fst (executeTransaction this' tx' w')
   \<and> snd (executeTransaction this tx w) = w\<lparr>signerCalls := signerCalls w + 1\<rparr>"
  by (simp add: executeTransaction_def)

subsection \<open>C9: classification is deterministic\<close>

text \<open>
  C9: two calls of \<open>processInstruction\<close> with the same instruction on the same agent,
  in any two states (clocks), select the same handler: whenever both resolve, the
  two envelopes agree on \<open>success\<close>, on the presence of \<open>error\<close> and on the payload's
  \<open>type\<close>; and both do resolve when in both states the end of the voting period can
  be rendered.
\<close>

theorem classification_deterministic:
  "(processInstruction this s w1 = (Inr r1, w1')
      \<and> processInstruction this s w2 = (Inr r2, w2')
    \<longrightarrow> success r1 = success r2
        \<and> (error r1 = None) = (error r2 = None)
        \<and> map_option type (data r1) = map_option type (data r2))
   \<and> (votingEndValid w1 \<and> votingEndValid w2 \<longrightarrow>
        (\<exists>r1 w1' r2 w2'.
           processInstruction this s w1 = (Inr r1, w1')
           \<and> processInstruction this s w2 = (Inr r2, w2')
           \<and> success r1 = success r2
           \<and> (error r1 = None) = (error r2 = None)
           \<and> map_option type (data r1) = map_option type (data r2)))"
proof -
  have agree: "success a = success b \<and> (error a = None) = (error b = None)
        \<and> map_option type (data a) = map_option type (data b)"
    if "processInstruction this s w1 = (Inr a, u)" and "processInstruction this s w2 = (Inr b, v)"
    for a b u v
    using processInstruction_flags[OF that(1)] processInstruction_flags[OF that(2)] by simp
  have both: "\<exists>r1 w1' r2 w2'.
           processInstruction this s w1 = (Inr r1, w1')
           \<and> processInstruction this s w2 = (Inr r2, w2')
           \<and> success r1 = success r2
           \<and> (error r1 = None) = (error r2 = None)
           \<and> map_option type (data r1) = map_option type (data r2)"
    if v1: "votingEndValid w1" and v2: "votingEndValid w2"
  proof -
    obtain a u where 1: "processInstruction this s w1 = (Inr a, u)"
      using processInstruction_resolves_valid[OF v1] by blast
    obtain b v where 2: "processInstruction this s w2 = (Inr b, v)"
      using processInstruction_resolves_valid[OF v2] by blast
    from agree[OF 1 2] 1 2 show ?thesis
      by (intro exI[of _ a] exI[of _ u] exI[of _ b] exI[of _ v]) simp
  qed
  from agree both show ?thesis by blast
qed

theorem classification_deterministic_witness:
  "votingEndValid env0 \<and> votingEndValid (env0\<lparr>reads := 7\<rparr>)
   \<and> (\<exists>r1 w1' r2 w2'.
         processInstruction demoAgent ''create proposal'' env0 = (Inr r1, w1')
         \<and> processInstruction demoAgent ''create proposal'' (env0\<lparr>reads := 7\<rparr>) = (Inr r2, w2')
         \<and> success r1 = success r2
         \<and> (error r1 = None) = (error r2 = None)
         \<and> map_option type (data r1) = map_option type (data r2))"
proof -
  have v: "votingEndValid (env0\<lparr>reads := 7\<rparr>)"
    by (simp add: votingEndValid_def validTime_def env0_def)
  from classification_deterministic[of demoAgent "''create proposal''" env0 _ _
      "env0\<lparr>reads := 7\<rparr>"] votingEndValid_env0 v
  show ?thesis by blast
qed

subsection \<open>C10: when \<open>processInstruction\<close> throws\<close>

text \<open>
  C10 says that \<open>processInstruction\<close> returns an envelope and never throws, for
  every string. The title extraction indeed never throws, but \<open>createProposal\<close>
  renders the current time plus three days, and \<open>toISOString\<close> raises a RangeError
  when that is beyond the last instant of \<open>Date\<close>. With the clock at that last
  instant, itself a time value, the instruction \<open>create proposal\<close> is rejected:
\<close>

theorem proposal_rejected_at_last_instant:
  "validTime (clock envLast (reads envLast))
   \<and> validTime (clock envLast (reads envLast + 1))
   \<and> fst (processInstruction demoAgent ''create proposal'' envLast) = Inl RangeError"
proof -
  have lc: "toLowerCase ''create proposal'' = ''create proposal''"
    by code_simp
  have t: "proposalTitle ''create proposal'' = Inr ''Untitled Proposal''"
    by (rule proposalTitle_no_marker) simp
  have p: "processInstruction demoAgent ''create proposal'' envLast
      = createProposal demoAgent ''create proposal'' envLast"
    by (rule processInstruction_proposal) (simp add: lc)
  show ?thesis
    unfolding p createProposal_outcome[OF t]
    by (simp add: votingEndValid_def validTime_def envLast_def)
qed

text \<open>
  C10 as amended: for every string, \<open>processInstruction\<close> returns an envelope
  exactly when the instruction is not routed to the proposal handler or the clock
  reading plus three days is a time value (as it is for every clock more than
  three days before the end of the range of \<open>Date\<close>); it never throws a TypeError,
  whatever the clock; and when the instruction is routed to the proposal handler
  and no double quote follows the marker \<open>titled\<close> (\<open>pre\<close> is the text before its
  first occurrence: no occurrence starts inside \<open>pre\<close>; \<open>post\<close> is the text behind
  it), the index \<open>[1]\<close> out of range is absorbed by \<open>||\<close> and the title is
  \<open>Untitled Proposal\<close>.
\<close>

theorem processInstruction_never_throws:
  "((\<exists>r w'. processInstruction this s w = (Inr r, w'))
      = (votingEndValid w \<or> \<not> includes_str (toLowerCase s) ''create proposal''))
   \<and> fst (processInstruction this s w) \<noteq> Inl TypeError
   \<and> (includes_str (toLowerCase (pre @ ''titled'' @ post)) ''create proposal''
        \<and> \<not> includes_str (pre @ ''title'') ''titled''
        \<and> dquote \<notin> set post
        \<and> votingEndValid w
      \<longrightarrow> (\<exists>r w'. processInstruction this (pre @ ''titled'' @ post) w = (Inr r, w')
             \<and> map_option title (data r) = Some ''Untitled Proposal''))"
proof (intro conjI impI)
  show "(\<exists>r w'. processInstruction this s w = (Inr r, w'))
      = (votingEndValid w \<or> \<not> includes_str (toLowerCase s) ''create proposal'')"
    by (rule processInstruction_resolves)
next
  show "fst (processInstruction this s w) \<noteq> Inl TypeError"
    by (rule processInstruction_no_TypeError)
next
  let ?s = "pre @ ''titled'' @ post"
  assume h: "includes_str (toLowerCase ?s) ''create proposal''
        \<and> \<not> includes_str (pre @ ''title'') ''titled''
        \<and> dquote \<notin> set post
        \<and> votingEndValid w"
  then have "processInstruction this ?s w = createProposal this ?s w"
    by (intro processInstruction_proposal) simp
  moreover from h have "proposalTitle ?s = Inr ''Untitled Proposal''"
    by (intro proposalTitle_no_quote) simp_all
  moreover from h have "votingEndValid w" by simp
  ultimately show "\<exists>r w'. processInstruction this ?s w = (Inr r, w')
             \<and> map_option title (data r) = Some ''Untitled Proposal''"
    by (simp only: createProposal_result) simp
qed

theorem processInstruction_never_throws_witness:
  "votingEndValid env0
   \<and> (\<exists>r w'. processInstruction demoAgent ''Create proposal titled Fund Grants'' env0 = (Inr r, w'))
   \<and> fst (processInstruction demoAgent ''Create proposal titled Fund Grants'' env0) \<noteq> Inl TypeError
   \<and> (\<exists>r w'. processInstruction demoAgent ''Create proposal titled Fund Grants'' env0 = (Inr r, w')
        \<and> map_option title (data r) = Some ''Untitled Proposal'')"
proof -
  have eq: "''Create proposal titled Fund Grants'' = ''Create proposal '' @ ''titled'' @ '' Fund Grants''"
    by simp
  have 1: "includes_str (toLowerCase (''Create proposal '' @ ''titled'' @ '' Fund Grants'')) ''create proposal''"
    by code_simp
  have 2: "\<not> includes_str (''Create proposal '' @ ''title'') ''titled''"
    by code_simp
  have 3: "dquote \<notin> set '' Fund Grants''"
    by code_simp
  from processInstruction_never_throws[of demoAgent "''Create proposal titled Fund Grants''" env0
      "''Create proposal ''" "'' Fund Grants''"] 1 2 3 votingEndValid_env0
  show ?thesis unfolding eq by blast
qed

end
